theory Spec2Isabelle
  imports Main
begin

section \<open>JavaScript strings and values\<close>

text \<open>
  Strings are character lists. All strings the extension builds its keys, configuration
  values and fences from are ASCII, where a character, a byte and a UTF-16 code unit
  coincide. A value of type \<open>string | null | undefined\<close> is a \<open>string option\<close>;
  \<open>truthy\<close> is JavaScript's truthiness of such a value: \<open>null\<close>, \<open>undefined\<close> and the
  empty string are falsy.
\<close>

definition truthy :: "string option \<Rightarrow> bool" where
  "truthy v = (case v of None \<Rightarrow> False | Some s \<Rightarrow> s \<noteq> [])"

text \<open>\<open>s.startsWith(p)\<close> and \<open>s.slice(n)\<close> for a non-negative \<open>n\<close>.\<close>

definition startsWith :: "string \<Rightarrow> string \<Rightarrow> bool" where
  "startsWith s p = (take (length p) s = p)"

definition slice :: "string \<Rightarrow> nat \<Rightarrow> string" where
  "slice s n = drop n s"

text \<open>
  \<open>str.split(sep)\<close>: the separator's occurrences are found from left to right, without
  overlap; \<open>cur\<close> is the segment read so far. An empty separator splits into single
  characters.
\<close>

fun split_from :: "char \<Rightarrow> string \<Rightarrow> string \<Rightarrow> string \<Rightarrow> string list" where
  "split_from d ds cur [] = [cur]"
| "split_from d ds cur (c # cs) =
     (if startsWith (c # cs) (d # ds)
      then cur # split_from d ds [] (drop (length ds) cs)
      else split_from d ds (cur @ [c]) cs)"

definition str_split :: "string \<Rightarrow> string \<Rightarrow> string list" where
  "str_split str sep =
     (case sep of [] \<Rightarrow> map (\<lambda>c. [c]) str | d # ds \<Rightarrow> split_from d ds [] str)"

text \<open>
  \<open>str.replaceAll(pat, rep)\<close> for a string pattern and a replacement without \<open>$\<close>
  patterns: every occurrence, from left to right, without overlap. An empty pattern
  matches before every character and at the end.
\<close>

fun replace_from :: "char \<Rightarrow> string \<Rightarrow> string \<Rightarrow> string \<Rightarrow> string" where
  "replace_from p ps rep [] = []"
| "replace_from p ps rep (c # cs) =
     (if startsWith (c # cs) (p # ps)
      then rep @ replace_from p ps rep (drop (length ps) cs)
      else c # replace_from p ps rep cs)"

definition replaceAll :: "string \<Rightarrow> string \<Rightarrow> string \<Rightarrow> string" where
  "replaceAll str pat rep =
     (case pat of [] \<Rightarrow> rep @ concat (map (\<lambda>c. c # rep) str)
      | p # ps \<Rightarrow> replace_from p ps rep str)"

text \<open>\<open>str.includes(pat)\<close>: does \<open>pat\<close> occur in \<open>str\<close>?\<close>

fun str_includes :: "string \<Rightarrow> string \<Rightarrow> bool" where
  "str_includes [] pat = (pat = [])"
| "str_includes (c # cs) pat = (startsWith (c # cs) pat \<or> str_includes cs pat)"

text \<open>\<open>toUpperCase\<close> and \<open>toLowerCase\<close> on the ASCII letters; other characters are kept.\<close>

definition toUpperCase_char :: "char \<Rightarrow> char" where
  "toUpperCase_char c =
     (case map_of (zip ''abcdefghijklmnopqrstuvwxyz'' ''ABCDEFGHIJKLMNOPQRSTUVWXYZ'') c of
        None \<Rightarrow> c | Some u \<Rightarrow> u)"

definition toLowerCase_char :: "char \<Rightarrow> char" where
  "toLowerCase_char c =
     (case map_of (zip ''ABCDEFGHIJKLMNOPQRSTUVWXYZ'' ''abcdefghijklmnopqrstuvwxyz'') c of
        None \<Rightarrow> c | Some l \<Rightarrow> l)"

definition toUpperCase :: "string \<Rightarrow> string" where
  "toUpperCase s = map toUpperCase_char s"

definition toLowerCase :: "string \<Rightarrow> string" where
  "toLowerCase s = map toLowerCase_char s"

text \<open>\<open>xs[i]\<close>: \<open>undefined\<close> out of range.\<close>

definition at_index :: "'a list \<Rightarrow> nat \<Rightarrow> 'a option" where
  "at_index xs i = (if i < length xs then Some (xs ! i) else None)"

datatype js_error = Error string | TypeError string

fun message_of :: "js_error \<Rightarrow> string" where
  "message_of (Error m) = m"
| "message_of (TypeError m) = m"

section \<open>The host: configuration, secret store, process environment, editor\<close>

text \<open>
  What the code does to the editor and to the network is recorded, in order, as a list of
  effects. \<open>EditStepFile filePath newContent oldContent open\<close> is one call of
  \<open>editStepFile\<close>; \<open>ChatCompletionsCreate provider model messages\<close> is one call of
  \<open>tokenjs.chat.completions.create\<close>, with the messages as (role, content) pairs.
\<close>

datatype effect =
    SelectLLM
  | ShowErrorMessage string
  | ShowWarningMessage string
  | ShowInformationMessage string
  | ShowQuickPick "string list" string
  | ShowInputBox string
  | ExecuteCommand string
  | ConfigurationUpdate string string
  | ChatCompletionsCreate string string "(string \<times> string) list"
  | EditStepFile string "string option" string bool

record host =
  llm_model :: "string option"
  secrets :: "string \<Rightarrow> string option"
  process_env :: "string \<Rightarrow> string option"
  effects :: "effect list"

definition emit :: "effect \<Rightarrow> host \<Rightarrow> host" where
  "emit e h = h\<lparr>effects := effects h @ [e]\<rparr>"

text \<open>A host with nothing configured, stored or exported, and nothing done yet.\<close>

definition fresh_host :: host where
  "fresh_host = \<lparr>llm_model = None, secrets = Map.empty, process_env = Map.empty, effects = []\<rparr>"

section \<open>services/aiService.ts\<close>

definition supportedLLMProviders :: "string list" where
  "supportedLLMProviders = [''anthropic'', ''gemini'', ''openai'']"

definition supportedAnthropicModels :: "string list" where
  "supportedAnthropicModels =
     [''claude-3-5-sonnet-20240620'', ''claude-3-opus-20240229'', ''claude-3-haiku-20240307'']"

definition supportedGeminiModels :: "string list" where
  "supportedGeminiModels = [''gemini-1.5-pro'', ''gemini-1.5-flash'', ''gemini-1.0-pro'']"

definition supportedOpenAIModels :: "string list" where
  "supportedOpenAIModels = [''gpt-4o'', ''gpt-4o-mini'', ''gpt-4-turbo'', ''gpt-3.5-turbo'']"

text \<open>The members of the type \<open>SupportedLLMModels\<close>, a union over the three providers.\<close>

definition SupportedLLMModels :: "string list" where
  "SupportedLLMModels = supportedAnthropicModels @ supportedGeminiModels @ supportedOpenAIModels"

text \<open>The field \<open>supportedModels\<close>, read by \<open>getSupportedModels\<close>.\<close>

definition supportedModels :: "string \<Rightarrow> string list option" where
  "supportedModels =
     [''anthropic'' \<mapsto> supportedAnthropicModels,
      ''gemini'' \<mapsto> supportedGeminiModels,
      ''openai'' \<mapsto> supportedOpenAIModels]"

definition getSupportedModels :: "string \<Rightarrow> string list option" where
  "getSupportedModels p = supportedModels p"

definition getSupportedProviders :: "string list" where
  "getSupportedProviders = supportedLLMProviders"

record AIService =
  provider :: "string option"
  model :: "string option"

record code_block =
  language :: string
  content :: string

text \<open>
  The interface \<open>FixMyPipelineResponse\<close>; its field \<open>code\<close> is \<open>code_blocks\<close> here, the
  name \<open>code\<close> being the field of a tracked recommendation below.
\<close>

record FixMyPipelineResponse =
  message :: string
  code_blocks :: "code_block list"

definition encode :: "string \<Rightarrow> string" where
  "encode str = replaceAll str ''.'' ''%2E''"

definition decode :: "string \<Rightarrow> string" where
  "decode str = replaceAll str ''%2E'' ''.''"

text \<open>
  The constructor reads the configuration value \<open>zenml.llm-model\<close>, which the code types
  as \<open>string | null\<close>. The destructuring \<open>[provider, model] = configuration.split('.')\<close>
  takes the first two segments; a missing one is \<open>undefined\<close>, and \<open>decode\<close> of it raises
  a TypeError.
\<close>

definition AIService_constructor :: "host \<Rightarrow> js_error + AIService" where
  "AIService_constructor h =
     (case llm_model h of
        None \<Rightarrow> Inr \<lparr>provider = None, model = None\<rparr>
      | Some configuration \<Rightarrow>
          (case str_split configuration ''.'' of
             p # m # _ \<Rightarrow> Inr \<lparr>provider = Some (decode p), model = Some (decode m)\<rparr>
           | _ \<Rightarrow> Inl (TypeError ''Cannot read properties of undefined (reading 'replaceAll')'')))"

definition keyStr :: "string \<Rightarrow> string" where
  "keyStr p = toUpperCase p @ ''_API_KEY''"

definition secret_name :: "string \<Rightarrow> string" where
  "secret_name p = ''zenml.'' @ p @ ''.key''"

definition setAPIKey :: "AIService \<Rightarrow> host \<Rightarrow> js_error + host" where
  "setAPIKey this h =
     (case provider this of
        None \<Rightarrow> Inr h
      | Some p \<Rightarrow>
          if p = [] then Inr h
          else
            let apiKey = secrets h (secret_name p);
                h1 = (if \<not> truthy (process_env h (keyStr p)) \<and> truthy apiKey
                      then h\<lparr>process_env := (process_env h)(keyStr p := apiKey)\<rparr>
                      else h)
            in if \<not> truthy (process_env h1 (keyStr p)) \<and> \<not> truthy apiKey
               then Inl (Error (''No '' @ p @ '' API key configured. Please add an environment variable or save a key through the command palette above and try again.''))
               else Inr h1)"

definition extractPythonSnippets :: "string \<Rightarrow> string list" where
  "extractPythonSnippets response =
     map (\<lambda>snippet. slice snippet 7)
       (filter (\<lambda>ele. startsWith ele ''python'') (str_split response ''```''))"

definition system_prompt :: string where
  "system_prompt =
     ''You are an advanced AI programming assistant tasked with troubleshooting pipeline runs for ZenML into an explanation that is both easy to understand and meaningful. Construct an explanation that:\<newline>      - Places the emphasis on the 'why' of the error, explaining possible causes of the problem, beyond just detailing what the error is.\<newline>      - Do not make any assumptions or invent details that are not supported by the code or the user-provided context\<newline>      - For the code snippets, please provide the entire content of the source code with any required edits made\<newline>      - Please respond only in markdown syntax''"

definition chat_messages :: "string \<Rightarrow> string \<Rightarrow> (string \<times> string) list" where
  "chat_messages log src =
     [(''system'', system_prompt),
      (''user'', ''Here is the content of the error message: '' @ log),
      (''user'', ''Here is the source code where the error occured: '' @ src),
      (''user'', ''Now, please explain some possible causes of the error. If you identify any code errors that could resolve the issue, please also provide the full content of the source code with the proposed changes made.'')]"

text \<open>
  The module imported as \<open>AIStepFixer\<close> exports one instance of an anonymous class. These
  are the members that instance has: the field and the four methods of the class.
  Neither \<open>getInstance\<close> nor \<open>selectLLM\<close> is among them, so the member read in
  \<open>AIStepFixer.getInstance()\<close> yields \<open>undefined\<close> and the call raises a TypeError.
\<close>

definition AIStepFixer_members :: "string list" where
  "AIStepFixer_members =
     [''codeRecommendations'', ''createVirtualDocument'', ''createCodeRecommendation'',
      ''updateCodeRecommendation'', ''editStepFile'']"

definition call_member :: "string \<Rightarrow> js_error + unit" where
  "call_member name =
     (if name \<in> set AIStepFixer_members then Inr ()
      else Inl (TypeError (''AIStepFixer.'' @ name @ '' is not a function'')))"

text \<open>
  The branch of \<open>fixMyPipelineRequest\<close> taken without a selection: the two calls
  \<open>getInstance()\<close> and \<open>selectLLM()\<close>, then the error message, then \<open>return\<close>. An error
  raised on the way leaves the function at once, with the host as it is then.
\<close>

definition no_selection :: "host \<Rightarrow> (js_error + FixMyPipelineResponse option) \<times> host" where
  "no_selection h =
     (case call_member ''getInstance'' of
        Inl e \<Rightarrow> (Inl e, h)
      | Inr _ \<Rightarrow>
          (case call_member ''selectLLM'' of
             Inl e \<Rightarrow> (Inl e, h)
           | Inr _ \<Rightarrow>
               (Inr None,
                emit (ShowErrorMessage ''No AI model selected. Please select one through the command palette above and try again.'')
                  (emit SelectLLM h))))"

text \<open>
  \<open>tokenjs\<close> is the external chat-completion client: given provider, model and messages
  it raises (\<open>Inl\<close>) or returns the content of the first choice, which may be \<open>null\<close>.
  The request itself returns a response or nothing (\<open>Inr\<close>), or raises (\<open>Inl\<close>: the
  promise is rejected).
\<close>

definition fixMyPipelineRequest ::
  "(string \<Rightarrow> string \<Rightarrow> (string \<times> string) list \<Rightarrow> js_error + string option) \<Rightarrow>
   string \<Rightarrow> string \<Rightarrow> AIService \<Rightarrow> host \<Rightarrow>
   (js_error + FixMyPipelineResponse option) \<times> host" where
  "fixMyPipelineRequest tokenjs log src this h =
     (case provider this of
        None \<Rightarrow> no_selection h
      | Some p \<Rightarrow>
     (case model this of
        None \<Rightarrow> no_selection h
      | Some m \<Rightarrow>
          if p = [] \<or> m = [] then no_selection h
          else
            (case setAPIKey this h of
               Inl e \<Rightarrow>
                 (Inr None,
                  emit (ExecuteCommand ''zenml.registerLLMAPIKey'')
                    (emit (ShowErrorMessage (message_of e)) h))
             | Inr h1 \<Rightarrow>
                 let h2 = emit (ChatCompletionsCreate p m (chat_messages log src)) h1 in
                 (case tokenjs p m (chat_messages log src) of
                    Inl _ \<Rightarrow>
                      (Inr None,
                       emit (ShowErrorMessage ''Something went wrong. Please verify your API key is correct and active.'') h2)
                  | Inr None \<Rightarrow> (Inr None, h2)
                  | Inr (Some response) \<Rightarrow>
                      (Inr (Some \<lparr>message = response,
                                  code_blocks =
                                    map (\<lambda>snippet. \<lparr>language = ''python'', content = snippet\<rparr>)
                                      (extractPythonSnippets response)\<rparr>),
                       h2)))))"

definition setModel :: "string \<Rightarrow> string \<Rightarrow> AIService \<Rightarrow> host \<Rightarrow> AIService \<times> host" where
  "setModel p m this h =
     (let this1 = this\<lparr>provider := Some (decode p)\<rparr>;
          this2 = this1\<lparr>model := Some (decode m)\<rparr>;
          config = encode p @ ''.'' @ encode m
      in (this2, emit (ConfigurationUpdate ''llm-model'' config) (h\<lparr>llm_model := Some config\<rparr>)))"

section \<open>The command registerLLMAPIKey\<close>

definition options :: "string list" where
  "options = [''Anthropic'', ''Gemini'', ''OpenAI'']"

definition secretKey :: "string \<Rightarrow> string" where
  "secretKey label = ''zenml.'' @ toLowerCase label @ ''.key''"

definition env_name :: "string \<Rightarrow> string" where
  "env_name label = toUpperCase label @ ''_API_KEY''"

text \<open>
  \<open>selectedOption\<close> is what the quick pick returns (the label chosen, or \<open>undefined\<close> when
  dismissed) and \<open>entered\<close> what the input box returns.
\<close>

definition registerLLMAPIKey :: "string option \<Rightarrow> string option \<Rightarrow> host \<Rightarrow> host" where
  "registerLLMAPIKey selectedOption entered h =
     (let h1 = emit (ShowQuickPick options ''Please select an LLM.'') h in
      case selectedOption of
        None \<Rightarrow> emit (ShowWarningMessage ''API key input was canceled.'') h1
      | Some label \<Rightarrow>
          let h2 = (if truthy (secrets h1 (secretKey label))
                    then emit (ShowInputBox (label @ '' API Key already exists, enter a new value to update.'')) h1
                    else emit (ShowInputBox (''Please enter your '' @ label @ '' API key'')) h1)
          in (case entered of
                None \<Rightarrow> emit (ShowWarningMessage ''API key input was canceled.'') h2
              | Some apiKey \<Rightarrow>
                  emit (ShowInformationMessage (label @ '' API key stored successfully.''))
                    (h2\<lparr>secrets := (secrets h2)(secretKey label \<mapsto> apiKey),
                        process_env := (process_env h2)(env_name label \<mapsto> apiKey)\<rparr>)))"

section \<open>commands/pipelines/AIStepFixer.ts\<close>

record codeRecommendation =
  filePath :: string
  code :: "string list"
  sourceCode :: string
  currentCodeIndex :: nat

record AIStepFixer =
  codeRecommendations :: "codeRecommendation list"
  calls :: "effect list"

text \<open>
  \<open>editStepFile\<close> reads the file and replaces the lines of \<open>oldContent\<close> by \<open>newContent\<close>
  through the editor; it does not touch \<open>codeRecommendations\<close>. The call is recorded with
  its arguments; \<open>newContent\<close> is \<open>undefined\<close> when the candidate index is out of range.
\<close>

definition editStepFile ::
  "string \<Rightarrow> string option \<Rightarrow> string \<Rightarrow> bool \<Rightarrow> AIStepFixer \<Rightarrow> AIStepFixer" where
  "editStepFile path newContent oldContent opn this =
     this\<lparr>calls := calls this @ [EditStepFile path newContent oldContent opn]\<rparr>"

definition createCodeRecommendation ::
  "string \<Rightarrow> string list \<Rightarrow> string \<Rightarrow> AIStepFixer \<Rightarrow> AIStepFixer" where
  "createCodeRecommendation path cs src this =
     editStepFile path (at_index cs 0) src True
       (this\<lparr>codeRecommendations := codeRecommendations this @
          [\<lparr>filePath = path, code = cs, sourceCode = src, currentCodeIndex = 0\<rparr>]\<rparr>)"

definition updateCodeRecommendation :: "string \<Rightarrow> AIStepFixer \<Rightarrow> AIStepFixer" where
  "updateCodeRecommendation path this =
     (case List.find (\<lambda>r. filePath r = path) (codeRecommendations this) of
        None \<Rightarrow> this
      | Some r \<Rightarrow>
          editStepFile path
            (at_index (code r)
               (if currentCodeIndex r + 1 < length (code r) then currentCodeIndex r + 1 else 0))
            (sourceCode r) False this)"

text \<open>The instance as the module creates it.\<close>

definition new_AIStepFixer :: AIStepFixer where
  "new_AIStepFixer = \<lparr>codeRecommendations = [], calls = []\<rparr>"

section \<open>Facts about splitting and replacing\<close>

text \<open>
  A string without the separator is its own single segment, and a separator written
  after \<open>a\<close> is the first one found when none starts earlier, that is, when none occurs
  in \<open>a\<close> followed by all but the last character of the separator.
\<close>

lemma split_from_none:
  "\<not> str_includes s (d # ds) \<Longrightarrow> split_from d ds cur s = [cur @ s]"
  by (induction s arbitrary: cur) auto

lemma startsWith_append_long:
  "length p \<le> length s \<Longrightarrow> startsWith (s @ t) p = startsWith s p"
  by (simp add: startsWith_def)

lemma startsWith_before_sep:
  assumes "sep \<noteq> []" and "x \<noteq> []"
  shows "startsWith (x @ sep @ b) sep = startsWith (x @ butlast sep) sep"
proof -
  have len: "length sep \<le> length (x @ butlast sep)"
    using assms by (cases x) simp_all
  have "x @ sep @ b = (x @ butlast sep) @ ([last sep] @ b)"
    using assms(1) by (metis append.assoc append_butlast_last_id)
  then show ?thesis
    using startsWith_append_long [OF len] by metis
qed

lemma split_from_first:
  "\<not> str_includes (a @ butlast (d # ds)) (d # ds) \<Longrightarrow>
   split_from d ds cur (a @ (d # ds) @ b) = (cur @ a) # split_from d ds [] b"
proof (induction a arbitrary: cur)
  case Nil
  then show ?case by (simp add: startsWith_def)
next
  case (Cons c a)
  from Cons.prems have ns: "\<not> startsWith ((c # a) @ butlast (d # ds)) (d # ds)"
    and rest: "\<not> str_includes (a @ butlast (d # ds)) (d # ds)"
    by (simp_all del: butlast.simps)
  have "\<not> startsWith ((c # a) @ (d # ds) @ b) (d # ds)"
    using ns startsWith_before_sep [of "d # ds" "c # a" b] by blast
  then have "\<not> startsWith (c # (a @ (d # ds) @ b)) (d # ds)" by simp
  then have "split_from d ds cur ((c # a) @ (d # ds) @ b) =
             split_from d ds (cur @ [c]) (a @ (d # ds) @ b)"
    by simp
  then show ?case using Cons.IH [OF rest, of "cur @ [c]"] by simp
qed

lemma split_fence_first:
  "\<not> str_includes (a @ ''``'') ''```'' \<Longrightarrow>
   str_split (a @ ''```'' @ b) ''```'' = a # str_split b ''```''"
  using split_from_first [of a "CHR ''`''" "''``''" "[]" b]
  by (simp add: str_split_def)

lemma split_fence_none:
  "\<not> str_includes s ''```'' \<Longrightarrow> str_split s ''```'' = [s]"
  using split_from_none [of s "CHR ''`''" "''``''" "[]"]
  by (simp add: str_split_def)

text \<open>
  Escaping: \<open>encode\<close> works character by character and leaves no dot behind; \<open>decode\<close>
  undoes it on every string that does not contain \<open>%2E\<close> itself.
\<close>

lemma replace_from_none:
  "\<not> str_includes s (p # ps) \<Longrightarrow> replace_from p ps rep s = s"
  by (induction s) auto

lemma str_includes_single: "str_includes s [c] = (c \<in> set s)"
  by (induction s) (auto simp: startsWith_def)

lemma encode_Nil: "encode [] = []"
  by (simp add: encode_def replaceAll_def)

lemma encode_Cons: "encode (c # cs) = (if c = CHR ''.'' then ''%2E'' else [c]) @ encode cs"
  by (simp add: encode_def replaceAll_def startsWith_def)

lemma encode_head:
  assumes "startsWith (encode cs) ''2E''"
  shows "startsWith cs ''2E''"
proof (cases cs)
  case Nil
  with assms show ?thesis by (simp add: encode_Nil startsWith_def)
next
  case (Cons a as)
  with assms show ?thesis
    by (cases as) (auto simp: encode_Nil encode_Cons startsWith_def split: if_splits)
qed

lemma decode_step:
  "\<not> startsWith (c # t) ''%2E'' \<Longrightarrow> decode (c # t) = c # decode t"
  by (simp add: decode_def replaceAll_def)

lemma decode_escape: "decode (''%2E'' @ t) = CHR ''.'' # decode t"
  by (simp add: decode_def replaceAll_def startsWith_def)

lemma decode_encode:
  "\<not> str_includes s ''%2E'' \<Longrightarrow> decode (encode s) = s"
proof (induction s)
  case Nil
  then show ?case by (simp add: encode_Nil decode_def replaceAll_def)
next
  case (Cons c cs)
  then have ih: "decode (encode cs) = cs" and ns: "\<not> startsWith (c # cs) ''%2E''" by simp_all
  show ?case
  proof (cases "c = CHR ''.''")
    case True
    then show ?thesis using ih decode_escape [of "encode cs"] by (simp add: encode_Cons)
  next
    case False
    have "\<not> startsWith (c # encode cs) ''%2E''"
    proof
      assume "startsWith (c # encode cs) ''%2E''"
      then have "c = CHR ''%''" and "startsWith (encode cs) ''2E''"
        by (simp_all add: startsWith_def)
      then have "startsWith (c # cs) ''%2E''"
        using encode_head [of cs] by (simp add: startsWith_def)
      with ns show False by simp
    qed
    then show ?thesis using ih False by (simp add: encode_Cons decode_step)
  qed
qed

lemma decode_plain: "\<not> str_includes s ''%2E'' \<Longrightarrow> decode s = s"
  by (simp add: decode_def replaceAll_def replace_from_none)

lemma encode_no_dot: "CHR ''.'' \<notin> set (encode s)"
  by (induction s) (auto simp: encode_Nil encode_Cons)

lemma split_config: "str_split (encode p @ ''.'' @ encode m) ''.'' = [encode p, encode m]"
proof -
  have "\<not> str_includes (encode p @ butlast ''.'') ''.''"
    by (simp add: str_includes_single encode_no_dot)
  then have "split_from CHR ''.'' [] [] (encode p @ ''.'' @ encode m) =
             encode p # split_from CHR ''.'' [] [] (encode m)"
    using split_from_first [of "encode p" "CHR ''.''" "[]" "[]" "encode m"] by simp
  moreover have "split_from CHR ''.'' [] [] (encode m) = [encode m]"
    using split_from_none [of "encode m" "CHR ''.''" "[]" "[]"]
    by (simp add: str_includes_single encode_no_dot)
  ultimately show ?thesis by (simp add: str_split_def)
qed

lemma enumerated_plain:
  "\<forall>s \<in> set (supportedLLMProviders @ SupportedLLMModels). \<not> str_includes s ''%2E''"
  by (simp add: supportedLLMProviders_def SupportedLLMModels_def supportedAnthropicModels_def
      supportedGeminiModels_def supportedOpenAIModels_def startsWith_def)

section \<open>Extracting the Python snippets\<close>

text \<open>
  Claim C5, as amended. \<open>extractPythonSnippets\<close> maps the response
  \<open>intro ```python\nfoo()\n``` outro\<close> to the single snippet \<open>foo()\n\<close>. A response
  \<open>pre ```text body ``` post\<close> whose two fences are the only ones (none starts inside
  \<open>pre\<close>, the block or \<open>post\<close>) yields no snippet, provided neither \<open>pre\<close> nor \<open>post\<close> starts
  with \<open>python\<close>; and a response without any fence yields no snippet provided it does not
  itself start with \<open>python\<close>. The provisos are needed: the filter looks at the start of
  every segment, the text before the first fence and after a closing fence included.
\<close>

theorem extractPythonSnippets_cases:
  "extractPythonSnippets ''intro ```python\<newline>foo()\<newline>``` outro'' = [''foo()\<newline>'']
   \<and> (\<forall>pre body post.
         \<not> str_includes (pre @ ''``'') ''```'' \<and> \<not> str_includes (''text'' @ body @ ''``'') ''```''
         \<and> \<not> str_includes post ''```''
         \<and> \<not> startsWith pre ''python'' \<and> \<not> startsWith post ''python''
         \<longrightarrow> extractPythonSnippets (pre @ ''```'' @ ''text'' @ body @ ''```'' @ post) = [])
   \<and> (\<forall>response.
         \<not> str_includes response ''```'' \<and> \<not> startsWith response ''python''
         \<longrightarrow> extractPythonSnippets response = [])"
proof (intro conjI allI impI)
  show "extractPythonSnippets ''intro ```python\<newline>foo()\<newline>``` outro'' = [''foo()\<newline>'']"
    by (simp add: extractPythonSnippets_def str_split_def startsWith_def slice_def)
next
  fix pre body post
  assume h: "\<not> str_includes (pre @ ''``'') ''```'' \<and> \<not> str_includes (''text'' @ body @ ''``'') ''```''
         \<and> \<not> str_includes post ''```''
         \<and> \<not> startsWith pre ''python'' \<and> \<not> startsWith post ''python''"
  have "str_split (pre @ ''```'' @ (''text'' @ body) @ ''```'' @ post) ''```'' =
        pre # str_split ((''text'' @ body) @ ''```'' @ post) ''```''"
    using h by (intro split_fence_first) simp
  also have "str_split ((''text'' @ body) @ ''```'' @ post) ''```'' =
        (''text'' @ body) # str_split post ''```''"
    using h by (intro split_fence_first) simp
  also have "str_split post ''```'' = [post]"
    using h by (intro split_fence_none) simp
  finally have "str_split (pre @ ''```'' @ ''text'' @ body @ ''```'' @ post) ''```'' =
        [pre, ''text'' @ body, post]" by simp
  then show "extractPythonSnippets (pre @ ''```'' @ ''text'' @ body @ ''```'' @ post) = []"
    using h by (simp add: extractPythonSnippets_def startsWith_def)
next
  fix response
  assume "\<not> str_includes response ''```'' \<and> \<not> startsWith response ''python''"
  then show "extractPythonSnippets response = []"
    by (simp add: extractPythonSnippets_def split_fence_none)
qed

text \<open>An instance with a text-tagged block, and one without fences.\<close>

theorem extractPythonSnippets_cases_witness:
  "(\<not> str_includes (''see '' @ ''``'') ''```'' \<and> \<not> str_includes (''text'' @ ''\<newline>ls\<newline>'' @ ''``'') ''```''
    \<and> \<not> str_includes '' done'' ''```''
    \<and> \<not> startsWith ''see '' ''python'' \<and> \<not> startsWith '' done'' ''python'')
   \<and> extractPythonSnippets (''see '' @ ''```'' @ ''text'' @ ''\<newline>ls\<newline>'' @ ''```'' @ '' done'') = []
   \<and> (\<not> str_includes ''no code here'' ''```'' \<and> \<not> startsWith ''no code here'' ''python'')
   \<and> extractPythonSnippets ''no code here'' = []"
proof -
  have a: "\<not> str_includes (''see '' @ ''``'') ''```'' \<and> \<not> str_includes (''text'' @ ''\<newline>ls\<newline>'' @ ''``'') ''```''
    \<and> \<not> str_includes '' done'' ''```''
    \<and> \<not> startsWith ''see '' ''python'' \<and> \<not> startsWith '' done'' ''python''"
    by (simp add: startsWith_def)
  have b: "\<not> str_includes ''no code here'' ''```'' \<and> \<not> startsWith ''no code here'' ''python''"
    by (simp add: startsWith_def)
  from extractPythonSnippets_cases
  have c: "\<forall>pre body post.
         \<not> str_includes (pre @ ''``'') ''```'' \<and> \<not> str_includes (''text'' @ body @ ''``'') ''```''
         \<and> \<not> str_includes post ''```''
         \<and> \<not> startsWith pre ''python'' \<and> \<not> startsWith post ''python''
         \<longrightarrow> extractPythonSnippets (pre @ ''```'' @ ''text'' @ body @ ''```'' @ post) = []"
    and d: "\<forall>response.
         \<not> str_includes response ''```'' \<and> \<not> startsWith response ''python''
         \<longrightarrow> extractPythonSnippets response = []"
    by blast+
  from c a have "extractPythonSnippets (''see '' @ ''```'' @ ''text'' @ ''\<newline>ls\<newline>'' @ ''```'' @ '' done'') = []"
    by blast
  moreover from d b have "extractPythonSnippets ''no code here'' = []" by blast
  ultimately show ?thesis using a b by blast
qed

text \<open>
  Without the proviso the statement fails: a response with no fence at all that starts
  with \<open>python\<close> is one segment, kept by the filter and cut after seven characters.
\<close>

theorem extractPythonSnippets_no_fence_counterexample:
  "\<not> str_includes ''python rocks'' ''```'' \<and> extractPythonSnippets ''python rocks'' = [''rocks'']"
  by (simp add: extractPythonSnippets_def str_split_def startsWith_def slice_def)

text \<open>
  Claim C9. Every snippet returned is a segment of the response split at the fences that
  starts with \<open>python\<close>, without its first seven characters; whether the segment lies
  inside or outside a fenced block is not looked at. So prose that starts with \<open>python\<close>
  right after a closing fence (the third segment below, outside the only block, which is
  tagged \<open>text\<close>) is returned, and so is the body of a block tagged \<open>python3\<close>.
\<close>

theorem extractPythonSnippets_segments:
  "(\<forall>x \<in> set (extractPythonSnippets response).
      \<exists>seg \<in> set (str_split response ''```''). startsWith seg ''python'' \<and> x = slice seg 7)
   \<and> str_split ''```text\<newline>ls\<newline>```python is fun'' ''```'' = ['''', ''text\<newline>ls\<newline>'', ''python is fun'']
   \<and> extractPythonSnippets ''```text\<newline>ls\<newline>```python is fun'' = [''is fun'']
   \<and> extractPythonSnippets ''```python3\<newline>print(1)\<newline>```'' = [''\<newline>print(1)\<newline>'']"
proof (intro conjI)
  show "\<forall>x \<in> set (extractPythonSnippets response).
      \<exists>seg \<in> set (str_split response ''```''). startsWith seg ''python'' \<and> x = slice seg 7"
    by (auto simp: extractPythonSnippets_def)
qed (simp_all add: extractPythonSnippets_def str_split_def startsWith_def slice_def)

text \<open>The snippet of the response \<open>intro ```python\nfoo()\n``` outro\<close> and its segment.\<close>

theorem extractPythonSnippets_segments_witness:
  "''foo()\<newline>'' \<in> set (extractPythonSnippets ''intro ```python\<newline>foo()\<newline>``` outro'')
   \<and> (\<exists>seg. seg \<in> set (str_split ''intro ```python\<newline>foo()\<newline>``` outro'' ''```'')
        \<and> startsWith seg ''python'' \<and> ''foo()\<newline>'' = slice seg 7)"
proof -
  have m: "''foo()\<newline>'' \<in> set (extractPythonSnippets ''intro ```python\<newline>foo()\<newline>``` outro'')"
    by (simp add: extractPythonSnippets_def str_split_def startsWith_def slice_def)
  with extractPythonSnippets_segments [of "''intro ```python\<newline>foo()\<newline>``` outro''"]
  show ?thesis by blast
qed

section \<open>The selection and its configuration value\<close>

text \<open>
  Claim C6. No provider and no model of the fixed enumerations contains \<open>%2E\<close>, and on
  each of them \<open>decode\<close> after \<open>encode\<close> is the identity.
\<close>

theorem decode_encode_enumerated:
  "\<forall>s \<in> set (supportedLLMProviders @ SupportedLLMModels).
     \<not> str_includes s ''%2E'' \<and> decode (encode s) = s"
  using enumerated_plain decode_encode by blast

text \<open>The model \<open>gpt-3.5-turbo\<close>, its escaped form and the way back.\<close>

theorem decode_encode_enumerated_witness:
  "''gpt-3.5-turbo'' \<in> set (supportedLLMProviders @ SupportedLLMModels)
   \<and> encode ''gpt-3.5-turbo'' = ''gpt-3%2E5-turbo''
   \<and> decode (encode ''gpt-3.5-turbo'') = ''gpt-3.5-turbo''"
proof -
  have m: "''gpt-3.5-turbo'' \<in> set (supportedLLMProviders @ SupportedLLMModels)"
    by (simp add: SupportedLLMModels_def supportedOpenAIModels_def)
  have e: "encode ''gpt-3.5-turbo'' = ''gpt-3%2E5-turbo''"
    by (simp add: encode_def replaceAll_def startsWith_def)
  from decode_encode_enumerated m have "decode (encode ''gpt-3.5-turbo'') = ''gpt-3.5-turbo''"
    by blast
  with m e show ?thesis by blast
qed

lemma constructor_after_setModel:
  assumes "decode (encode p) = p" and "decode (encode m) = m"
  shows "AIService_constructor (snd (setModel p m this h)) = Inr \<lparr>provider = Some p, model = Some m\<rparr>"
proof -
  have "llm_model (snd (setModel p m this h)) = Some (encode p @ ''.'' @ encode m)"
    by (simp add: setModel_def emit_def Let_def)
  then show ?thesis
    using assms by (simp only: AIService_constructor_def split_config option.case list.case)
qed

text \<open>
  Claim C7. For every provider and every model of the enumerations, \<open>setModel\<close> leaves
  exactly that pair in memory and writes \<open>encode provider . encode model\<close> to the
  configuration, and the constructor, reading that configuration back, splitting it at
  the dot and decoding both fields, yields exactly that pair again. With no
  configuration value the constructor yields no provider and no model.
\<close>

theorem setModel_then_constructor:
  "(\<forall>p \<in> set supportedLLMProviders. \<forall>m \<in> set SupportedLLMModels.
      fst (setModel p m this h) = \<lparr>provider = Some p, model = Some m\<rparr>
      \<and> llm_model (snd (setModel p m this h)) = Some (encode p @ ''.'' @ encode m)
      \<and> AIService_constructor (snd (setModel p m this h)) = Inr \<lparr>provider = Some p, model = Some m\<rparr>)
   \<and> (llm_model h = None \<longrightarrow> AIService_constructor h = Inr \<lparr>provider = None, model = None\<rparr>)"
proof (intro conjI ballI impI)
  fix p m
  assume "p \<in> set supportedLLMProviders" and "m \<in> set SupportedLLMModels"
  then have pl: "\<not> str_includes p ''%2E''" and ml: "\<not> str_includes m ''%2E''"
    using enumerated_plain by simp_all
  then show "fst (setModel p m this h) = \<lparr>provider = Some p, model = Some m\<rparr>"
    by (simp add: setModel_def Let_def decode_plain)
  show "llm_model (snd (setModel p m this h)) = Some (encode p @ ''.'' @ encode m)"
    by (simp add: setModel_def Let_def emit_def)
  show "AIService_constructor (snd (setModel p m this h)) = Inr \<lparr>provider = Some p, model = Some m\<rparr>"
    using pl ml by (intro constructor_after_setModel decode_encode)
next
  assume "llm_model h = None"
  then show "AIService_constructor h = Inr \<lparr>provider = None, model = None\<rparr>"
    by (simp add: AIService_constructor_def)
qed

text \<open>The pair \<open>gemini\<close>, \<open>gemini-1.5-pro\<close> written and read back, and the empty configuration.\<close>

theorem setModel_then_constructor_witness:
  "''gemini'' \<in> set supportedLLMProviders \<and> ''gemini-1.5-pro'' \<in> set SupportedLLMModels
   \<and> llm_model (snd (setModel ''gemini'' ''gemini-1.5-pro'' \<lparr>provider = None, model = None\<rparr> fresh_host))
       = Some ''gemini.gemini-1%2E5-pro''
   \<and> AIService_constructor (snd (setModel ''gemini'' ''gemini-1.5-pro'' \<lparr>provider = None, model = None\<rparr> fresh_host))
       = Inr \<lparr>provider = Some ''gemini'', model = Some ''gemini-1.5-pro''\<rparr>
   \<and> llm_model fresh_host = None
   \<and> AIService_constructor fresh_host = Inr \<lparr>provider = None, model = None\<rparr>"
proof -
  have a: "''gemini'' \<in> set supportedLLMProviders" and b: "''gemini-1.5-pro'' \<in> set SupportedLLMModels"
    by (simp_all add: supportedLLMProviders_def SupportedLLMModels_def supportedGeminiModels_def)
  have c: "llm_model fresh_host = None" by (simp add: fresh_host_def)
  have e: "encode ''gemini'' @ ''.'' @ encode ''gemini-1.5-pro'' = ''gemini.gemini-1%2E5-pro''"
    by (simp add: encode_def replaceAll_def startsWith_def)
  from setModel_then_constructor [of "\<lparr>provider = None, model = None\<rparr>" fresh_host] a b c e
  show ?thesis by (simp del: set_simps)
qed

text \<open>
  Claim C3, as amended. \<open>setModel\<close> checks nothing: for every provider and every model
  string it sets the provider and the model in memory (each passed through \<open>decode\<close>) and
  writes \<open>encode provider . encode model\<close> to the configuration. In particular every
  provider of the enumeration is accepted with every model of the type
  \<open>SupportedLLMModels\<close>, also one of another provider's list, and that pair is what is
  kept in memory and persisted.
\<close>

theorem setModel_no_validation:
  "setModel p m this h =
     (\<lparr>provider = Some (decode p), model = Some (decode m)\<rparr>,
      h\<lparr>llm_model := Some (encode p @ ''.'' @ encode m),
        effects := effects h @ [ConfigurationUpdate ''llm-model'' (encode p @ ''.'' @ encode m)]\<rparr>)
   \<and> (\<forall>q \<in> set supportedLLMProviders. \<forall>n \<in> set SupportedLLMModels.
        fst (setModel q n this h) = \<lparr>provider = Some q, model = Some n\<rparr>
        \<and> llm_model (snd (setModel q n this h)) = Some (q @ ''.'' @ encode n))"
proof (intro conjI ballI)
  show "setModel p m this h =
     (\<lparr>provider = Some (decode p), model = Some (decode m)\<rparr>,
      h\<lparr>llm_model := Some (encode p @ ''.'' @ encode m),
        effects := effects h @ [ConfigurationUpdate ''llm-model'' (encode p @ ''.'' @ encode m)]\<rparr>)"
    by (simp add: setModel_def emit_def Let_def)
next
  fix q n
  assume "q \<in> set supportedLLMProviders" and "n \<in> set SupportedLLMModels"
  then have "\<not> str_includes q ''%2E''" and "\<not> str_includes n ''%2E''"
    using enumerated_plain by simp_all
  then show "fst (setModel q n this h) = \<lparr>provider = Some q, model = Some n\<rparr>"
    by (simp add: setModel_def Let_def decode_plain)
next
  fix q n
  assume "q \<in> set supportedLLMProviders"
  then have "encode q = q"
    by (auto simp: supportedLLMProviders_def encode_def replaceAll_def startsWith_def)
  then show "llm_model (snd (setModel q n this h)) = Some (q @ ''.'' @ encode n)"
    by (simp add: setModel_def Let_def emit_def)
qed

text \<open>The provider \<open>anthropic\<close> with \<open>gpt-3.5-turbo\<close>, a model of the OpenAI list.\<close>

theorem setModel_no_validation_witness:
  "''anthropic'' \<in> set supportedLLMProviders \<and> ''gpt-3.5-turbo'' \<in> set SupportedLLMModels
   \<and> ''gpt-3.5-turbo'' \<notin> set supportedAnthropicModels
   \<and> fst (setModel ''anthropic'' ''gpt-3.5-turbo'' \<lparr>provider = None, model = None\<rparr> fresh_host)
       = \<lparr>provider = Some ''anthropic'', model = Some ''gpt-3.5-turbo''\<rparr>
   \<and> llm_model (snd (setModel ''anthropic'' ''gpt-3.5-turbo'' \<lparr>provider = None, model = None\<rparr> fresh_host))
       = Some ''anthropic.gpt-3%2E5-turbo''"
proof -
  have a: "''anthropic'' \<in> set supportedLLMProviders" and b: "''gpt-3.5-turbo'' \<in> set SupportedLLMModels"
    and c: "''gpt-3.5-turbo'' \<notin> set supportedAnthropicModels"
    by (simp_all add: supportedLLMProviders_def SupportedLLMModels_def supportedOpenAIModels_def
        supportedAnthropicModels_def)
  have e: "encode ''gpt-3.5-turbo'' = ''gpt-3%2E5-turbo''"
    by (simp add: encode_def replaceAll_def startsWith_def)
  from setModel_no_validation [of "''anthropic''" "''gpt-3.5-turbo''"
      "\<lparr>provider = None, model = None\<rparr>" fresh_host]
  have "\<forall>q \<in> set supportedLLMProviders. \<forall>n \<in> set SupportedLLMModels.
        fst (setModel q n \<lparr>provider = None, model = None\<rparr> fresh_host) = \<lparr>provider = Some q, model = Some n\<rparr>
        \<and> llm_model (snd (setModel q n \<lparr>provider = None, model = None\<rparr> fresh_host)) = Some (q @ ''.'' @ encode n)"
    by blast
  with a b have "fst (setModel ''anthropic'' ''gpt-3.5-turbo'' \<lparr>provider = None, model = None\<rparr> fresh_host)
       = \<lparr>provider = Some ''anthropic'', model = Some ''gpt-3.5-turbo''\<rparr>
     \<and> llm_model (snd (setModel ''anthropic'' ''gpt-3.5-turbo'' \<lparr>provider = None, model = None\<rparr> fresh_host))
       = Some (''anthropic'' @ ''.'' @ encode ''gpt-3.5-turbo'')"
    by blast
  with a b c e show ?thesis by simp
qed

text \<open>
  A rejection of such a pair does not happen: \<open>openai\<close> with a model that is not in
  the list \<open>supportedModels\<close> holds for it is stored and persisted like any other.
\<close>

theorem setModel_accepts_counterexample:
  "supportedModels ''openai'' = Some supportedOpenAIModels
   \<and> ''claude-3-opus-20240229'' \<notin> set supportedOpenAIModels
   \<and> setModel ''openai'' ''claude-3-opus-20240229'' \<lparr>provider = None, model = None\<rparr> fresh_host =
       (\<lparr>provider = Some ''openai'', model = Some ''claude-3-opus-20240229''\<rparr>,
        fresh_host\<lparr>llm_model := Some ''openai.claude-3-opus-20240229'',
                   effects := [ConfigurationUpdate ''llm-model'' ''openai.claude-3-opus-20240229'']\<rparr>)"
  by (simp add: supportedModels_def supportedOpenAIModels_def setModel_def emit_def fresh_host_def
      decode_def encode_def replaceAll_def startsWith_def Let_def)

section \<open>Resolving the API key\<close>

lemma setAPIKey_env:
  "provider this = Some p \<Longrightarrow> p \<noteq> [] \<Longrightarrow> truthy (process_env h (keyStr p)) \<Longrightarrow>
   setAPIKey this h = Inr h"
  by (simp add: setAPIKey_def)

lemma setAPIKey_secret:
  "provider this = Some p \<Longrightarrow> p \<noteq> [] \<Longrightarrow> \<not> truthy (process_env h (keyStr p)) \<Longrightarrow>
   truthy (secrets h (secret_name p)) \<Longrightarrow>
   setAPIKey this h = Inr (h\<lparr>process_env := (process_env h)(keyStr p := secrets h (secret_name p))\<rparr>)"
  by (simp add: setAPIKey_def)

lemma setAPIKey_neither:
  "provider this = Some p \<Longrightarrow> p \<noteq> [] \<Longrightarrow> \<not> truthy (process_env h (keyStr p)) \<Longrightarrow>
   \<not> truthy (secrets h (secret_name p)) \<Longrightarrow>
   setAPIKey this h = Inl (Error (''No '' @ p @ '' API key configured. Please add an environment variable or save a key through the command palette above and try again.''))"
  by (simp add: setAPIKey_def)

text \<open>
  Claim C4. For a provider \<open>p\<close> (any non-empty string, so each of the three), with the
  environment variable \<open>keyStr p\<close>, that is \<open><PROVIDER>_API_KEY\<close>, and the secret
  \<open>zenml.<provider>.key\<close>, where a variable or secret counts as set when it holds a
  non-empty string (JavaScript's truthiness, as the code tests it):
  if the environment variable is set, \<open>setAPIKey\<close> succeeds and changes nothing, whatever
  the secret store holds; if it is not set and the secret is, \<open>setAPIKey\<close> succeeds and
  the environment variable holds the secret afterwards; if neither is set, it raises an
  error whose message names the provider.
\<close>

theorem setAPIKey_cases:
  assumes "provider this = Some p" and "p \<noteq> []"
  shows "(truthy (process_env h (keyStr p)) \<longrightarrow> setAPIKey this h = Inr h)
    \<and> (\<not> truthy (process_env h (keyStr p)) \<and> truthy (secrets h (secret_name p)) \<longrightarrow>
         setAPIKey this h =
           Inr (h\<lparr>process_env := (process_env h)(keyStr p := secrets h (secret_name p))\<rparr>))
    \<and> (\<not> truthy (process_env h (keyStr p)) \<and> \<not> truthy (secrets h (secret_name p)) \<longrightarrow>
         setAPIKey this h =
           Inl (Error (''No '' @ p @ '' API key configured. Please add an environment variable or save a key through the command palette above and try again.'')))"
  using assms setAPIKey_env setAPIKey_secret setAPIKey_neither by blast

lemma keys_openai:
  "keyStr ''openai'' = ''OPENAI_API_KEY''" "secret_name ''openai'' = ''zenml.openai.key''"
  by (simp_all add: keyStr_def secret_name_def toUpperCase_def toUpperCase_char_def)

text \<open>The provider \<open>openai\<close>: both sources set, only the secret set, neither set.\<close>

theorem setAPIKey_cases_witness:
  "keyStr ''openai'' = ''OPENAI_API_KEY'' \<and> secret_name ''openai'' = ''zenml.openai.key''
   \<and> setAPIKey \<lparr>provider = Some ''openai'', model = Some ''gpt-4o''\<rparr>
        (fresh_host\<lparr>secrets := [''zenml.openai.key'' \<mapsto> ''sk-stored''],
                    process_env := [''OPENAI_API_KEY'' \<mapsto> ''sk-exported'']\<rparr>)
      = Inr (fresh_host\<lparr>secrets := [''zenml.openai.key'' \<mapsto> ''sk-stored''],
                        process_env := [''OPENAI_API_KEY'' \<mapsto> ''sk-exported'']\<rparr>)
   \<and> setAPIKey \<lparr>provider = Some ''openai'', model = Some ''gpt-4o''\<rparr>
        (fresh_host\<lparr>secrets := [''zenml.openai.key'' \<mapsto> ''sk-stored'']\<rparr>)
      = Inr (fresh_host\<lparr>secrets := [''zenml.openai.key'' \<mapsto> ''sk-stored''],
                        process_env := [''OPENAI_API_KEY'' \<mapsto> ''sk-stored'']\<rparr>)
   \<and> setAPIKey \<lparr>provider = Some ''openai'', model = Some ''gpt-4o''\<rparr> fresh_host
      = Inl (Error ''No openai API key configured. Please add an environment variable or save a key through the command palette above and try again.'')"
proof -
  let ?this = "\<lparr>provider = Some ''openai'', model = Some ''gpt-4o''\<rparr>"
  have p: "provider ?this = Some ''openai''" and n: "''openai'' \<noteq> []" by simp_all
  show ?thesis
    using setAPIKey_cases [OF p n, of "fresh_host\<lparr>secrets := [''zenml.openai.key'' \<mapsto> ''sk-stored''],
                    process_env := [''OPENAI_API_KEY'' \<mapsto> ''sk-exported'']\<rparr>"]
      setAPIKey_cases [OF p n, of "fresh_host\<lparr>secrets := [''zenml.openai.key'' \<mapsto> ''sk-stored'']\<rparr>"]
      setAPIKey_cases [OF p n, of fresh_host]
    by (simp add: keys_openai truthy_def fresh_host_def)
qed

lemma registerLLMAPIKey_stores:
  "secrets (registerLLMAPIKey (Some label) (Some apiKey) h) (secretKey label) = Some apiKey
   \<and> process_env (registerLLMAPIKey (Some label) (Some apiKey) h) (env_name label) = Some apiKey"
  by (simp add: registerLLMAPIKey_def emit_def Let_def)

lemma registerLLMAPIKey_secrets_kept:
  "secrets ((registerLLMAPIKey (Some label) (Some apiKey) h)\<lparr>process_env := e\<rparr>) (secretKey label)
     = Some apiKey"
  by (simp add: registerLLMAPIKey_def emit_def Let_def)

lemma lower_labels:
  "toLowerCase ''Anthropic'' = ''anthropic''"
  "toLowerCase ''Gemini'' = ''gemini''"
  "toLowerCase ''OpenAI'' = ''openai''"
  by (simp_all add: toLowerCase_def toLowerCase_char_def)

lemma upper_labels:
  "toUpperCase ''Anthropic'' = ''ANTHROPIC''"
  "toUpperCase ''Gemini'' = ''GEMINI''"
  "toUpperCase ''OpenAI'' = ''OPENAI''"
  by (simp_all add: toUpperCase_def toUpperCase_char_def)

lemma upper_providers:
  "toUpperCase ''anthropic'' = ''ANTHROPIC''"
  "toUpperCase ''gemini'' = ''GEMINI''"
  "toUpperCase ''openai'' = ''OPENAI''"
  by (simp_all add: toUpperCase_def toUpperCase_char_def)

lemma option_keys:
  assumes "label \<in> set options"
  shows "toLowerCase label \<noteq> [] \<and> secretKey label = secret_name (toLowerCase label)
   \<and> env_name label = keyStr (toLowerCase label)"
proof -
  from assms consider "label = ''Anthropic''" | "label = ''Gemini''" | "label = ''OpenAI''"
    by (auto simp: options_def)
  then show ?thesis
    by cases
      (simp_all only: secretKey_def secret_name_def env_name_def keyStr_def
        lower_labels upper_labels upper_providers, simp_all)
qed

text \<open>
  Claim C10. The labels offered by \<open>registerLLMAPIKey\<close>, lowercased, are the three
  supported providers, and for each of them the secret the command writes is the secret
  \<open>setAPIKey\<close> reads for that provider, and the environment variable the command sets is
  the one \<open>setAPIKey\<close> tests. So after a non-empty key has been registered under a label,
  \<open>setAPIKey\<close> for that provider succeeds with the environment variable holding the key;
  and in a process whose environment is empty again it finds the key in the secret store
  and exports it.
\<close>

theorem registered_key_is_found:
  "map toLowerCase options = supportedLLMProviders
   \<and> (\<forall>label \<in> set options.
        secretKey label = secret_name (toLowerCase label)
        \<and> env_name label = keyStr (toLowerCase label)
        \<and> (\<forall>apiKey (this :: AIService) h.
              apiKey \<noteq> [] \<and> provider this = Some (toLowerCase label) \<longrightarrow>
              setAPIKey this (registerLLMAPIKey (Some label) (Some apiKey) h)
                = Inr (registerLLMAPIKey (Some label) (Some apiKey) h)
              \<and> process_env (registerLLMAPIKey (Some label) (Some apiKey) h)
                  (keyStr (toLowerCase label)) = Some apiKey
              \<and> setAPIKey this ((registerLLMAPIKey (Some label) (Some apiKey) h)\<lparr>process_env := Map.empty\<rparr>)
                = Inr ((registerLLMAPIKey (Some label) (Some apiKey) h)
                         \<lparr>process_env := [keyStr (toLowerCase label) \<mapsto> apiKey]\<rparr>)))"
proof (intro conjI ballI allI impI)
  show "map toLowerCase options = supportedLLMProviders"
    by (simp add: options_def supportedLLMProviders_def toLowerCase_def toLowerCase_char_def)
next
  fix label :: string
  assume "label \<in> set options"
  then show "secretKey label = secret_name (toLowerCase label)"
    and "env_name label = keyStr (toLowerCase label)"
    using option_keys by simp_all
next
  fix label apiKey :: string and this :: AIService and h :: host
  assume l: "label \<in> set options"
    and a: "apiKey \<noteq> [] \<and> provider this = Some (toLowerCase label)"
  let ?p = "toLowerCase label"
  let ?h = "registerLLMAPIKey (Some label) (Some apiKey) h"
  from l have ne: "?p \<noteq> []" and sk: "secretKey label = secret_name ?p"
    and ek: "env_name label = keyStr ?p"
    using option_keys by simp_all
  from a have pr: "provider this = Some ?p" and k: "apiKey \<noteq> []" by simp_all
  have env: "process_env ?h (keyStr ?p) = Some apiKey"
    using registerLLMAPIKey_stores [of label apiKey h] ek by simp
  then show "process_env ?h (keyStr ?p) = Some apiKey" .
  show "setAPIKey this ?h = Inr ?h"
    using setAPIKey_env [OF pr ne, of ?h] env k by (simp add: truthy_def)
  have sec: "secrets (?h\<lparr>process_env := Map.empty\<rparr>) (secret_name ?p) = Some apiKey"
    using registerLLMAPIKey_secrets_kept [where label = label and apiKey = apiKey and h = h and e = Map.empty] sk by simp
  show "setAPIKey this (?h\<lparr>process_env := Map.empty\<rparr>)
          = Inr (?h\<lparr>process_env := [keyStr ?p \<mapsto> apiKey]\<rparr>)"
    using setAPIKey_secret [OF pr ne, of "?h\<lparr>process_env := Map.empty\<rparr>"] sec k
    by (simp add: truthy_def)
qed

text \<open>The label \<open>OpenAI\<close> and the provider \<open>openai\<close>, on a host with nothing stored before.\<close>

theorem registered_key_is_found_witness:
  "''OpenAI'' \<in> set options
   \<and> secretKey ''OpenAI'' = ''zenml.openai.key'' \<and> secret_name ''openai'' = ''zenml.openai.key''
   \<and> env_name ''OpenAI'' = ''OPENAI_API_KEY'' \<and> keyStr ''openai'' = ''OPENAI_API_KEY''
   \<and> setAPIKey \<lparr>provider = Some ''openai'', model = Some ''gpt-4o''\<rparr>
        (registerLLMAPIKey (Some ''OpenAI'') (Some ''sk-entered'') fresh_host)
      = Inr (registerLLMAPIKey (Some ''OpenAI'') (Some ''sk-entered'') fresh_host)
   \<and> process_env (registerLLMAPIKey (Some ''OpenAI'') (Some ''sk-entered'') fresh_host)
        ''OPENAI_API_KEY'' = Some ''sk-entered''"
proof -
  have o: "''OpenAI'' \<in> set options" by (simp add: options_def)
  have l: "toLowerCase ''OpenAI'' = ''openai''"
    by (simp add: toLowerCase_def toLowerCase_char_def)
  have n: "secretKey ''OpenAI'' = ''zenml.openai.key''" "env_name ''OpenAI'' = ''OPENAI_API_KEY''"
    by (simp_all add: secretKey_def env_name_def toLowerCase_def toLowerCase_char_def
        toUpperCase_def toUpperCase_char_def)
  let ?svc = "\<lparr>provider = Some ''openai'', model = Some ''gpt-4o''\<rparr>"
  let ?h = "registerLLMAPIKey (Some ''OpenAI'') (Some ''sk-entered'') fresh_host"
  have pre: "''sk-entered'' \<noteq> [] \<and> provider ?svc = Some (toLowerCase ''OpenAI'')"
    using l by simp
  from registered_key_is_found o
  have "\<forall>apiKey (this :: AIService) h.
              apiKey \<noteq> [] \<and> provider this = Some (toLowerCase ''OpenAI'') \<longrightarrow>
              setAPIKey this (registerLLMAPIKey (Some ''OpenAI'') (Some apiKey) h)
                = Inr (registerLLMAPIKey (Some ''OpenAI'') (Some apiKey) h)
              \<and> process_env (registerLLMAPIKey (Some ''OpenAI'') (Some apiKey) h)
                  (keyStr (toLowerCase ''OpenAI'')) = Some apiKey"
    by blast
  with pre have "setAPIKey ?svc ?h = Inr ?h
      \<and> process_env ?h (keyStr (toLowerCase ''OpenAI'')) = Some ''sk-entered''"
    by blast
  then have "setAPIKey ?svc ?h = Inr ?h \<and> process_env ?h ''OPENAI_API_KEY'' = Some ''sk-entered''"
    by (simp only: l keys_openai)
  with o n show ?thesis by (simp add: keys_openai)
qed

section \<open>Requesting a fix\<close>

lemma getInstance_raises:
  "call_member ''getInstance'' = Inl (TypeError ''AIStepFixer.getInstance is not a function'')"
  by (simp add: call_member_def AIStepFixer_members_def)

lemma no_selection_raises:
  "no_selection h = (Inl (TypeError ''AIStepFixer.getInstance is not a function''), h)"
  by (simp add: no_selection_def getInstance_raises)

text \<open>
  Claim C8. Without a selection \<open>fixMyPipelineRequest\<close> is written to ask for a model
  through \<open>selectLLM\<close>, show an error message and return nothing, and it requests no chat
  completion. The code does not get that far: \<open>AIStepFixer.getInstance\<close> does not exist on
  the imported instance, so the first statement of the branch raises a TypeError. In each
  of the four ways of having no selection (no provider, no model, an empty provider, an
  empty model), for every log, source code, chat client and host, the request raises
  instead of returning nothing, and the host is unchanged: no prompt, no message, and no
  chat completion either.
\<close>

theorem fixMyPipelineRequest_no_selection_raises:
  "fixMyPipelineRequest tokenjs log src \<lparr>provider = None, model = m\<rparr> h =
     (Inl (TypeError ''AIStepFixer.getInstance is not a function''), h)
   \<and> fixMyPipelineRequest tokenjs log src \<lparr>provider = Some p, model = None\<rparr> h =
     (Inl (TypeError ''AIStepFixer.getInstance is not a function''), h)
   \<and> fixMyPipelineRequest tokenjs log src \<lparr>provider = Some [], model = Some n\<rparr> h =
     (Inl (TypeError ''AIStepFixer.getInstance is not a function''), h)
   \<and> fixMyPipelineRequest tokenjs log src \<lparr>provider = Some p, model = Some []\<rparr> h =
     (Inl (TypeError ''AIStepFixer.getInstance is not a function''), h)"
  by (simp add: fixMyPipelineRequest_def no_selection_raises split: option.splits)

section \<open>Cycling through the recommendations\<close>

lemma updateCodeRecommendation_table:
  "codeRecommendations (updateCodeRecommendation path this) = codeRecommendations this"
  by (simp add: updateCodeRecommendation_def editStepFile_def split: option.splits)

lemma updateCodeRecommendation_applies:
  assumes "List.find (\<lambda>r. filePath r = path) (codeRecommendations this) = Some r"
    and "currentCodeIndex r < length (code r)"
  shows "calls (updateCodeRecommendation path this) =
           calls this @
             [EditStepFile path (Some (code r ! ((currentCodeIndex r + 1) mod length (code r))))
                (sourceCode r) False]"
proof (cases "currentCodeIndex r + 1 < length (code r)")
  case True
  then show ?thesis
    using assms by (simp add: updateCodeRecommendation_def editStepFile_def at_index_def)
next
  case False
  with assms(2) have e: "currentCodeIndex r + 1 = length (code r)" by linarith
  from assms(2) have n: "0 < length (code r)" by linarith
  have "(currentCodeIndex r + 1) mod length (code r) = 0" using e by simp
  then show ?thesis
    using assms(1) False n
    by (simp add: updateCodeRecommendation_def editStepFile_def at_index_def)
qed

text \<open>
  Claim C1. \<open>updateCodeRecommendation\<close> computes the next index from the stored one and
  applies that candidate without preview, but it never writes the index back: the table
  is the same after the call, for every state and path. With three candidates, after the
  creation (index 0) the first advance applies the second candidate and leaves index 0,
  so the second advance applies the second candidate again; and a stored index 2 stays 2
  while the first candidate is applied.
\<close>

theorem updateCodeRecommendation_keeps_index:
  "codeRecommendations (updateCodeRecommendation path this) = codeRecommendations this
   \<and> codeRecommendations
        (updateCodeRecommendation ''step.py''
           (createCodeRecommendation ''step.py'' [''a'', ''b'', ''c''] ''old'' new_AIStepFixer))
      = [\<lparr>filePath = ''step.py'', code = [''a'', ''b'', ''c''], sourceCode = ''old'', currentCodeIndex = 0\<rparr>]
   \<and> calls
        (updateCodeRecommendation ''step.py''
          (updateCodeRecommendation ''step.py''
            (createCodeRecommendation ''step.py'' [''a'', ''b'', ''c''] ''old'' new_AIStepFixer)))
      = [EditStepFile ''step.py'' (Some ''a'') ''old'' True,
         EditStepFile ''step.py'' (Some ''b'') ''old'' False,
         EditStepFile ''step.py'' (Some ''b'') ''old'' False]
   \<and> updateCodeRecommendation ''step.py''
        \<lparr>codeRecommendations =
           [\<lparr>filePath = ''step.py'', code = [''a'', ''b'', ''c''], sourceCode = ''old'', currentCodeIndex = 2\<rparr>],
         calls = []\<rparr>
      = \<lparr>codeRecommendations =
           [\<lparr>filePath = ''step.py'', code = [''a'', ''b'', ''c''], sourceCode = ''old'', currentCodeIndex = 2\<rparr>],
         calls = [EditStepFile ''step.py'' (Some ''a'') ''old'' False]\<rparr>"
  by (simp add: updateCodeRecommendation_table)
     (simp add: updateCodeRecommendation_def createCodeRecommendation_def editStepFile_def
      new_AIStepFixer_def at_index_def)

lemma createCodeRecommendation_table:
  "codeRecommendations (createCodeRecommendation path cs src this) =
     codeRecommendations this @
       [\<lparr>filePath = path, code = cs, sourceCode = src, currentCodeIndex = 0\<rparr>]"
  by (simp add: createCodeRecommendation_def editStepFile_def)

lemma find_append:
  "List.find P (xs @ ys) = (case List.find P xs of None \<Rightarrow> List.find P ys | Some x \<Rightarrow> Some x)"
  by (induction xs) simp_all

lemma find_after_create:
  assumes "List.find (\<lambda>r. filePath r = path) (codeRecommendations this) = Some r"
  shows "List.find (\<lambda>r. filePath r = path)
           (codeRecommendations (createCodeRecommendation path cs src this)) = Some r"
  using assms by (simp add: createCodeRecommendation_table find_append)

text \<open>
  Claim C2. A creation is meant to make its recommendation the current one of the file:
  it applies the first of the new candidates. But \<open>createCodeRecommendation\<close> only appends
  to the table, and the lookup of \<open>updateCodeRecommendation\<close> takes the first entry of the
  path. After two creations for one file the table holds two entries of that path, the
  second creation has applied \<open>b1\<close>, and the advance that follows applies \<open>a2\<close>, the next
  candidate of the first recommendation, against the first one's source code.
\<close>

theorem createCodeRecommendation_twice:
  "codeRecommendations
     (createCodeRecommendation ''step.py'' [''b1'', ''b2''] ''new''
        (createCodeRecommendation ''step.py'' [''a1'', ''a2''] ''old'' new_AIStepFixer))
   = [\<lparr>filePath = ''step.py'', code = [''a1'', ''a2''], sourceCode = ''old'', currentCodeIndex = 0\<rparr>,
      \<lparr>filePath = ''step.py'', code = [''b1'', ''b2''], sourceCode = ''new'', currentCodeIndex = 0\<rparr>]
   \<and> calls
       (updateCodeRecommendation ''step.py''
          (createCodeRecommendation ''step.py'' [''b1'', ''b2''] ''new''
             (createCodeRecommendation ''step.py'' [''a1'', ''a2''] ''old'' new_AIStepFixer)))
     = [EditStepFile ''step.py'' (Some ''a1'') ''old'' True,
        EditStepFile ''step.py'' (Some ''b1'') ''new'' True,
        EditStepFile ''step.py'' (Some ''a2'') ''old'' False]"
  by (simp add: updateCodeRecommendation_def createCodeRecommendation_def editStepFile_def
      new_AIStepFixer_def at_index_def)

end
